theory Spec2Isabelle
  imports Main
begin

section \<open>JavaScript strings and values\<close>

text \<open>
  A JavaScript string is a sequence of UTF-16 code units, so \<open>length\<close> is the
  \<open>.length\<close> of the source and \<open>take n\<close> is \<open>.slice(0, n)\<close>. A code unit is a
  natural number; \<open>js\<close> turns an ASCII literal of the source into its code units.
\<close>

type_synonym jsstring = "nat list"

definition js :: "string \<Rightarrow> jsstring" where
  "js s = map of_char s"

text \<open>WhiteSpace and LineTerminator code points of ECMAScript, as \<open>String.prototype.trim\<close> strips them.\<close>

definition isWhiteSpace :: "nat \<Rightarrow> bool" where
  "isWhiteSpace c \<longleftrightarrow>
     List.member [9, 10, 11, 12, 13, 32, 160, 5760, 8232, 8233, 8239, 8287, 12288, 65279] c
     \<or> (8192 \<le> c \<and> c \<le> 8202)"

definition trimStart :: "jsstring \<Rightarrow> jsstring" where
  "trimStart s = dropWhile isWhiteSpace s"

definition trimEnd :: "jsstring \<Rightarrow> jsstring" where
  "trimEnd s = rev (dropWhile isWhiteSpace (rev s))"

definition trim :: "jsstring \<Rightarrow> jsstring" where
  "trim s = trimEnd (trimStart s)"

text \<open>\<open>s.split(c)\<close> for a one-character separator: never the empty array.\<close>

fun splitOn :: "nat \<Rightarrow> jsstring \<Rightarrow> jsstring list" where
  "splitOn c [] = [[]]"
| "splitOn c (x # xs) =
     (if x = c then [] # splitOn c xs
      else (case splitOn c xs of [] \<Rightarrow> [[x]] | p # ps \<Rightarrow> (x # p) # ps))"

definition startsWith :: "jsstring \<Rightarrow> jsstring \<Rightarrow> bool" where
  "startsWith s p \<longleftrightarrow> take (length p) s = p"

text \<open>\<open>s.includes(p)\<close> on strings: \<open>p\<close> occurs somewhere in \<open>s\<close>.\<close>

fun includesStr :: "jsstring \<Rightarrow> jsstring \<Rightarrow> bool" where
  "includesStr [] p = (p = [])"
| "includesStr (c # cs) p = (startsWith (c # cs) p \<or> includesStr cs p)"

text \<open>\<open>lines.join(sep)\<close>.\<close>

fun joinWith :: "jsstring \<Rightarrow> jsstring list \<Rightarrow> jsstring" where
  "joinWith sep [] = []"
| "joinWith sep [l] = l"
| "joinWith sep (l # ls) = l @ sep @ joinWith sep ls"

text \<open>The decimal digits of a number, as a template literal prints \<open>res.status\<close>.\<close>

function showNat :: "nat \<Rightarrow> jsstring" where
  "showNat n = (if n < 10 then [48 + n] else showNat (n div 10) @ [48 + n mod 10])"
  by pat_completeness auto
termination
  by (relation "measure id") auto

text \<open>
  A thrown value: an \<open>Error\<close> object with its \<open>name\<close> and \<open>message\<close>.
\<close>

datatype js_error = JsError (errName: jsstring) (errMessage: jsstring)

section \<open>api/ifet/feedback.js\<close>

text \<open>
  The values the handler reads from a form or a JSON body. The code only tests them for
  truthiness and converts them with \<open>String(v)\<close>, so a value that is neither a string
  nor a file is given by these two: \<open>JOther truthy text\<close>.
\<close>

record jsfile =
  fileName :: jsstring
  fileSize :: nat

datatype jsval = JNull | JStr jsstring | JFile jsfile | JOther bool jsstring

fun truthy :: "jsval \<Rightarrow> bool" where
  "truthy JNull = False"
| "truthy (JStr s) = (s \<noteq> [])"
| "truthy (JFile f) = True"
| "truthy (JOther t s) = t"

text \<open>\<open>a || b\<close>.\<close>

definition orElse :: "jsval \<Rightarrow> jsval \<Rightarrow> jsval" where
  "orElse a b = (if truthy a then a else b)"

fun toStr :: "jsval \<Rightarrow> jsstring" where
  "toStr JNull = js ''null''"
| "toStr (JStr s) = s"
| "toStr (JFile f) = js ''[object File]''"
| "toStr (JOther t s) = s"

text \<open>The five headers of \<open>corsHeaders\<close>, an object literal with fixed keys.\<close>

record cors_headers =
  accessControlAllowOrigin :: jsstring
  accessControlAllowMethods :: jsstring
  accessControlAllowHeaders :: jsstring
  accessControlMaxAge :: jsstring
  vary :: jsstring

definition corsHeaders :: "jsstring \<Rightarrow> jsstring list \<Rightarrow> cors_headers" where
  "corsHeaders requestOrigin allowedOrigins =
     (let allow =
        (if length allowedOrigins = 0 then js ''*''
         else if List.member allowedOrigins (js ''*'') then js ''*''
         else if List.member allowedOrigins requestOrigin then requestOrigin
         else (case allowedOrigins of [] \<Rightarrow> [] | a # _ \<Rightarrow> a))
      in \<lparr> accessControlAllowOrigin = allow,
           accessControlAllowMethods = js ''POST, OPTIONS'',
           accessControlAllowHeaders = js ''Content-Type, Authorization'',
           accessControlMaxAge = js ''86400'',
           vary = js ''Origin'' \<rparr>)"

text \<open>The data \<open>json\<close> serialises: the diagnostics object, \<open>{ok: true}\<close>, or \<open>{ok: false, error}\<close>.\<close>

datatype json_data =
    Diagnostics bool bool "jsstring list"
  | OkTrue
  | OkFalse jsstring

record response =
  status :: nat
  contentType :: "jsstring option"
  headers :: cors_headers
  body :: "json_data option"

definition json :: "json_data \<Rightarrow> cors_headers \<Rightarrow> nat \<Rightarrow> response" where
  "json data hdrs st =
     \<lparr> status = st,
       contentType = Some (js ''application/json; charset=utf-8''),
       headers = hdrs,
       body = Some data \<rparr>"

text \<open>The ellipsis \<open>U+2026\<close> that \<open>safeStr\<close> appends is one code unit.\<close>

definition safeStr :: "jsval \<Rightarrow> nat \<Rightarrow> jsstring" where
  "safeStr v maxLen =
     (let s = trim (case v of JNull \<Rightarrow> [] | _ \<Rightarrow> toStr v)
      in if length s > maxLen then take maxLen s @ [8230] else s)"

record payload =
  pType :: jsstring
  pLang :: jsstring
  pEmail :: jsstring
  pMessage :: jsstring
  pTimestamp :: jsstring
  pUserAgent :: jsstring

text \<open>
  \<open>formatMessage\<close>. The emoji prefixes are written as their code units; a line is pushed
  only for a truthy (non-empty) field, and \<open>payload.type || "unknown"\<close> is \<open>orElse\<close>.
\<close>

definition formatMessage :: "payload \<Rightarrow> jsstring" where
  "formatMessage p =
     (let lines0 = [[55357, 56541] @ js '' IFET feedback: ''
                      @ safeStr (orElse (JStr (pType p)) (JStr (js ''unknown''))) 40];
          lines1 = (if pLang p \<noteq> []
                    then lines0 @ [[55356, 57104] @ js '' lang: '' @ safeStr (JStr (pLang p)) 20]
                    else lines0);
          lines2 = (if pEmail p \<noteq> []
                    then lines1 @ [[9993, 65039] @ js '' email: '' @ safeStr (JStr (pEmail p)) 200]
                    else lines1);
          lines3 = (if pUserAgent p \<noteq> []
                    then lines2 @ [[55358, 56813] @ js '' ua: '' @ safeStr (JStr (pUserAgent p)) 240]
                    else lines2);
          lines4 = (if pMessage p \<noteq> []
                    then lines3 @ [[10] @ safeStr (JStr (pMessage p)) 3500]
                    else lines3);
          lines5 = (if pTimestamp p \<noteq> []
                    then lines4 @ [[10, 9201, 32] @ safeStr (JStr (pTimestamp p)) 80]
                    else lines4)
      in joinWith [10] lines5)"

record env =
  BOT_TOKEN :: "jsstring option"
  CHAT_ID :: "jsstring option"
  ALLOWED_ORIGIN :: "jsstring option"
  ALLOWED_ORIGINS :: "jsstring option"

text \<open>An environment variable or a header as a value: \<open>undefined\<close>/\<open>null\<close> when absent.\<close>

definition optVal :: "jsstring option \<Rightarrow> jsval" where
  "optVal v = (case v of None \<Rightarrow> JNull | Some s \<Rightarrow> JStr s)"

definition getAllowedOrigins :: "env \<Rightarrow> jsstring list" where
  "getAllowedOrigins e =
     (let raw = trim (toStr (orElse (orElse (optVal (ALLOWED_ORIGINS e)) (optVal (ALLOWED_ORIGIN e)))
                                     (JStr (js ''*''))))
      in if raw = [] \<or> raw = js ''*'' then [js ''*'']
         else filter (\<lambda>s. s \<noteq> []) (map trim (splitOn 44 raw)))"

text \<open>
  The two downstream calls. What \<open>fetch\<close> does is the world's: the handler is given the
  outcome of every request, a rejection (network failure) or a response with its status
  and the outcome of reading its text.
\<close>

datatype tg_request =
    SendMessage jsstring jsstring jsstring
  | SendDocument jsstring jsstring jsstring jsfile jsstring

datatype fetch_outcome =
    Rejected js_error
  | Responded nat "js_error + jsstring"

type_synonym upstream = "tg_request \<Rightarrow> fetch_outcome"

definition resOk :: "nat \<Rightarrow> bool" where
  "resOk st \<longleftrightarrow> 200 \<le> st \<and> st \<le> 299"

text \<open>What follows the \<open>await fetch\<close> of both calls: throw unless \<open>res.ok\<close>.\<close>

definition checkRes :: "jsstring \<Rightarrow> fetch_outcome \<Rightarrow> js_error + unit" where
  "checkRes what out =
     (case out of
        Rejected e \<Rightarrow> Inl e
      | Responded st txt \<Rightarrow>
          if resOk st then Inr ()
          else (case txt of
                  Inl e \<Rightarrow> Inl e
                | Inr t \<Rightarrow> Inl (JsError (js ''Error'')
                    (js ''Telegram '' @ what @ js '' failed: '' @ showNat st @ js '' '' @ t))))"

definition tgSendMessage ::
  "env \<Rightarrow> upstream \<Rightarrow> jsstring \<Rightarrow> (js_error + unit) \<times> tg_request list" where
  "tgSendMessage e world text =
     (let url = js ''https://api.telegram.org/bot'' @ toStr (optVal (BOT_TOKEN e)) @ js ''/sendMessage'';
          call = SendMessage url (toStr (optVal (CHAT_ID e))) text
      in (checkRes (js ''sendMessage'') (world call), [call]))"

definition tgSendDocument ::
  "env \<Rightarrow> upstream \<Rightarrow> jsfile \<Rightarrow> jsstring \<Rightarrow> (js_error + unit) \<times> tg_request list" where
  "tgSendDocument e world f caption =
     (let safeCaption = safeStr (JStr caption) 950;
          url = js ''https://api.telegram.org/bot'' @ toStr (optVal (BOT_TOKEN e)) @ js ''/sendDocument'';
          call = SendDocument url (toStr (optVal (CHAT_ID e))) safeCaption f
                   (toStr (orElse (JStr (fileName f)) (JStr (js ''attachment''))))
      in (checkRes (js ''sendDocument'') (world call), [call]))"

text \<open>
  A request: its method, the two headers the handler reads (\<open>None\<close> when absent), and the
  outcomes of \<open>await request.formData()\<close> and \<open>await request.json()\<close>, each a thrown
  error or the parsed fields. \<open>get\<close> on a form and a property read on a JSON body both
  give the first entry of the name, \<open>null\<close>/\<open>undefined\<close> when there is none.
\<close>

type_synonym fields = "(jsstring \<times> jsval) list"

record request =
  reqMethod :: jsstring
  originHeader :: "jsstring option"
  contentTypeHeader :: "jsstring option"
  formDataResult :: "js_error + fields"
  jsonResult :: "js_error + fields"

definition getField :: "fields \<Rightarrow> jsstring \<Rightarrow> jsval" where
  "getField fd name = (case map_of fd name of None \<Rightarrow> JNull | Some v \<Rightarrow> v)"

definition readPayload :: "fields \<Rightarrow> payload" where
  "readPayload fd =
     \<lparr> pType = safeStr (orElse (getField fd (js ''type'')) (JStr [])) 50,
       pLang = safeStr (orElse (getField fd (js ''lang'')) (JStr [])) 10,
       pEmail = safeStr (orElse (getField fd (js ''email'')) (JStr [])) 250,
       pMessage = safeStr (orElse (getField fd (js ''message'')) (JStr [])) 6000,
       pTimestamp = safeStr (orElse (getField fd (js ''timestamp'')) (JStr [])) 80,
       pUserAgent = safeStr (orElse (getField fd (js ''userAgent'')) (JStr [])) 400 \<rparr>"

text \<open>
  The attachment of a multipart form: the entry must be a file object, and a file of
  size zero is dropped.
\<close>

definition readAttachment :: "fields \<Rightarrow> jsfile option" where
  "readAttachment fd =
     (case getField fd (js ''attachment'') of
        JFile f \<Rightarrow> if fileSize f = 0 then None else Some f
      | _ \<Rightarrow> None)"

text \<open>The body of the \<open>try\<close> block: the thrown error or normal completion, and the calls made.\<close>

definition forward ::
  "env \<Rightarrow> upstream \<Rightarrow> request \<Rightarrow> (js_error + unit) \<times> tg_request list" where
  "forward e world req =
     (let ct = toStr (orElse (optVal (contentTypeHeader req)) (JStr []))
      in if includesStr ct (js ''multipart/form-data'')
         then (case formDataResult req of
                 Inl err \<Rightarrow> (Inl err, [])
               | Inr fd \<Rightarrow>
                   (let text = formatMessage (readPayload fd)
                    in case readAttachment fd of
                         Some f \<Rightarrow> tgSendDocument e world f text
                       | None \<Rightarrow> tgSendMessage e world text))
         else (case jsonResult req of
                 Inl err \<Rightarrow> (Inl err, [])
               | Inr b \<Rightarrow> tgSendMessage e world (formatMessage (readPayload b))))"

text \<open>\<open>String(e && e.message ? e.message : e)\<close>: the message, or the error's name when it has none.\<close>

definition errorText :: "js_error \<Rightarrow> jsstring" where
  "errorText e = (if errMessage e \<noteq> [] then errMessage e else errName e)"

definition handler :: "env \<Rightarrow> upstream \<Rightarrow> request \<Rightarrow> response \<times> tg_request list" where
  "handler e world req =
     (let origin = toStr (orElse (optVal (originHeader req)) (JStr []));
          allowedOrigins = getAllowedOrigins e;
          cors = corsHeaders origin allowedOrigins
      in if reqMethod req = js ''GET''
         then (json (Diagnostics (truthy (optVal (BOT_TOKEN e))) (truthy (optVal (CHAT_ID e)))
                       allowedOrigins) cors 200, [])
         else if reqMethod req = js ''OPTIONS''
         then (\<lparr> status = 204, contentType = None, headers = cors, body = None \<rparr>, [])
         else if reqMethod req \<noteq> js ''POST''
         then (json (OkFalse (js ''Method not allowed'')) cors 405, [])
         else if \<not> truthy (optVal (BOT_TOKEN e)) \<or> \<not> truthy (optVal (CHAT_ID e))
         then (json (OkFalse (js ''Server not configured (missing BOT_TOKEN/CHAT_ID)'')) cors 500, [])
         else (case forward e world req of
                 (Inr u, calls) \<Rightarrow> (json OkTrue cors 200, calls)
               | (Inl err, calls) \<Rightarrow> (json (OkFalse (errorText err)) cors 500, calls)))"

section \<open>The platform functions of ifet/lang.js\<close>

subsection \<open>UTF-8, percent-decoding and \<open>URLSearchParams\<close>\<close>

text \<open>
  \<open>new URLSearchParams(s)\<close> drops one leading \<open>?\<close>, converts the string to scalar values
  (a lone surrogate becomes \<open>U+FFFD\<close>), encodes them as UTF-8 and runs the
  \<open>application/x-www-form-urlencoded\<close> parser of the URL standard: split at \<open>&\<close>, skip
  empty pieces, split each at its first \<open>=\<close>, turn \<open>+\<close> into a space, percent-decode,
  and decode the bytes as UTF-8 with replacement.
\<close>

definition isHigh :: "nat \<Rightarrow> bool" where
  "isHigh c \<longleftrightarrow> 55296 \<le> c \<and> c \<le> 56319"

definition isLow :: "nat \<Rightarrow> bool" where
  "isLow c \<longleftrightarrow> 56320 \<le> c \<and> c \<le> 57343"

definition scalar :: "nat \<Rightarrow> nat" where
  "scalar c = (if isHigh c \<or> isLow c then 65533 else c)"

fun codePoints :: "jsstring \<Rightarrow> nat list" where
  "codePoints [] = []"
| "codePoints [c] = [scalar c]"
| "codePoints (c # d # ds) =
     (if isHigh c \<and> isLow d then (65536 + (c - 55296) * 1024 + (d - 56320)) # codePoints ds
      else scalar c # codePoints (d # ds))"

definition toUnits :: "nat \<Rightarrow> jsstring" where
  "toUnits cp =
     (if cp < 65536 then [cp]
      else [55296 + (cp - 65536) div 1024, 56320 + (cp - 65536) mod 1024])"

definition utf8Bytes :: "nat \<Rightarrow> nat list" where
  "utf8Bytes cp =
     (if cp < 128 then [cp]
      else if cp < 2048 then [192 + cp div 64, 128 + cp mod 64]
      else if cp < 65536 then [224 + cp div 4096, 128 + (cp div 64) mod 64, 128 + cp mod 64]
      else [240 + cp div 262144, 128 + (cp div 4096) mod 64, 128 + (cp div 64) mod 64,
            128 + cp mod 64])"

definition utf8Encode :: "jsstring \<Rightarrow> nat list" where
  "utf8Encode s = concat (map utf8Bytes (codePoints s))"

text \<open>
  The UTF-8 decoder of the Encoding standard. A lead byte either is a code point, is an
  error, or opens a sequence: the bits of the code point so far, the number of bytes
  still needed, and the bounds of the next byte.
\<close>

datatype utf8_lead = Emit nat | Bad | Open nat nat nat nat

definition utf8Lead :: "nat \<Rightarrow> utf8_lead" where
  "utf8Lead b =
     (if b \<le> 127 then Emit b
      else if 194 \<le> b \<and> b \<le> 223 then Open (b mod 32) 1 128 191
      else if 224 \<le> b \<and> b \<le> 239
        then Open (b mod 16) 2 (if b = 224 then 160 else 128) (if b = 237 then 159 else 191)
      else if 240 \<le> b \<and> b \<le> 244
        then Open (b mod 8) 3 (if b = 240 then 144 else 128) (if b = 244 then 143 else 191)
      else Bad)"

fun utf8Decode :: "nat \<Rightarrow> nat \<Rightarrow> nat \<Rightarrow> nat \<Rightarrow> nat list \<Rightarrow> nat list" where
  "utf8Decode cp need lo hi [] = (if need \<noteq> 0 then [65533] else [])"
| "utf8Decode cp need lo hi (b # bs) =
     (if need \<noteq> 0 \<and> lo \<le> b \<and> b \<le> hi
      then (if need = 1 then (cp * 64 + b mod 64) # utf8Decode 0 0 128 191 bs
            else utf8Decode (cp * 64 + b mod 64) (need - 1) 128 191 bs)
      else (if need \<noteq> 0 then [65533] else []) @
           (case utf8Lead b of
              Emit c \<Rightarrow> c # utf8Decode 0 0 128 191 bs
            | Bad \<Rightarrow> 65533 # utf8Decode 0 0 128 191 bs
            | Open cp' need' lo' hi' \<Rightarrow> utf8Decode cp' need' lo' hi' bs))"

definition utf8DecodeLossy :: "nat list \<Rightarrow> jsstring" where
  "utf8DecodeLossy bs = concat (map toUnits (utf8Decode 0 0 128 191 bs))"

definition isHex :: "nat \<Rightarrow> bool" where
  "isHex c \<longleftrightarrow> (48 \<le> c \<and> c \<le> 57) \<or> (65 \<le> c \<and> c \<le> 70) \<or> (97 \<le> c \<and> c \<le> 102)"

definition hexVal :: "nat \<Rightarrow> nat" where
  "hexVal c = (if c \<le> 57 then c - 48 else if c \<le> 70 then c - 55 else c - 87)"

fun percentDecode :: "nat list \<Rightarrow> nat list" where
  "percentDecode (c # h1 # h2 # r) =
     (if c = 37 \<and> isHex h1 \<and> isHex h2 then (16 * hexVal h1 + hexVal h2) # percentDecode r
      else c # percentDecode (h1 # h2 # r))"
| "percentDecode (c # r) = c # percentDecode r"
| "percentDecode [] = []"

definition formDecode :: "nat list \<Rightarrow> jsstring" where
  "formDecode bs = utf8DecodeLossy (percentDecode (map (\<lambda>b. if b = 43 then 32 else b) bs))"

definition parseUrlencoded :: "nat list \<Rightarrow> (jsstring \<times> jsstring) list" where
  "parseUrlencoded bs =
     map (\<lambda>piece. (formDecode (takeWhile (\<lambda>b. b \<noteq> 61) piece),
                    formDecode (drop 1 (dropWhile (\<lambda>b. b \<noteq> 61) piece))))
         (filter (\<lambda>piece. piece \<noteq> []) (splitOn 38 bs))"

definition URLSearchParams :: "jsstring \<Rightarrow> (jsstring \<times> jsstring) list" where
  "URLSearchParams init =
     parseUrlencoded (utf8Encode (case init of [] \<Rightarrow> [] | c # cs \<Rightarrow> if c = 63 then cs else init))"

text \<open>\<open>urlParams.get(name)\<close>: the value of the first pair of that name, \<open>null\<close> when there is none.\<close>

definition paramsGet :: "(jsstring \<times> jsstring) list \<Rightarrow> jsstring \<Rightarrow> jsval" where
  "paramsGet ps name = (case map_of ps name of None \<Rightarrow> JNull | Some v \<Rightarrow> JStr v)"

subsection \<open>\<open>decodeURIComponent\<close>\<close>

text \<open>
  The \<open>Decode\<close> operation of ECMAScript with an empty reserved set. Every \<open>%\<close> must open
  an escape \<open>%XX\<close>; an escape with a high bit set must open a run of escapes that is the
  UTF-8 encoding of one code point. Anything else throws a \<open>URIError\<close>.
\<close>

definition URIError :: js_error where
  "URIError = JsError (js ''URIError'') (js ''URI malformed'')"

definition escapeAt :: "jsstring \<Rightarrow> (nat \<times> jsstring) option" where
  "escapeAt s =
     (case s of
        p # h1 # h2 # r \<Rightarrow>
          if p = 37 \<and> isHex h1 \<and> isHex h2 then Some (16 * hexVal h1 + hexVal h2, r) else None
      | _ \<Rightarrow> None)"

fun escapesAt :: "nat \<Rightarrow> jsstring \<Rightarrow> (nat list \<times> jsstring) option" where
  "escapesAt 0 s = Some ([], s)"
| "escapesAt (Suc n) s =
     (case escapeAt s of
        None \<Rightarrow> None
      | Some (b, r) \<Rightarrow>
          (case escapesAt n r of None \<Rightarrow> None | Some (bs, r') \<Rightarrow> Some (b # bs, r')))"

text \<open>The number of leading 1 bits of a byte, as far as the algorithm tells them apart.\<close>

definition leadingOnes :: "nat \<Rightarrow> nat" where
  "leadingOnes b =
     (if b < 128 then 0 else if b < 192 then 1 else if b < 224 then 2
      else if b < 240 then 3 else if b < 248 then 4 else 5)"

text \<open>The code point of a sequence of octets that is valid UTF-8, \<open>None\<close> otherwise.\<close>

definition decodeOctets :: "nat list \<Rightarrow> nat option" where
  "decodeOctets os =
     (case os of
        [] \<Rightarrow> None
      | b # rest \<Rightarrow>
          (case utf8Lead b of
             Open cp need lo hi \<Rightarrow>
               (case rest of
                  [] \<Rightarrow> None
                | c # cs \<Rightarrow>
                    if length rest = need \<and> lo \<le> c \<and> c \<le> hi \<and> list_all (\<lambda>x. 128 \<le> x \<and> x \<le> 191) cs
                    then Some (foldl (\<lambda>a x. a * 64 + x mod 64) cp rest)
                    else None)
           | _ \<Rightarrow> None))"

definition decodeEscape :: "jsstring \<Rightarrow> (jsstring \<times> jsstring) option" where
  "decodeEscape s =
     (case escapeAt s of
        None \<Rightarrow> None
      | Some (b, r) \<Rightarrow>
          (let n = leadingOnes b
           in if n = 0 then Some ([b], r)
              else if n = 1 \<or> n > 4 then None
              else (case escapesAt (n - 1) r of
                      None \<Rightarrow> None
                    | Some (bs, r') \<Rightarrow>
                        (case decodeOctets (b # bs) of
                           None \<Rightarrow> None
                         | Some cp \<Rightarrow> Some (toUnits cp, r')))))"

lemma escapeAt_shorter: "escapeAt s = Some (b, r) \<Longrightarrow> length r < length s"
  by (auto simp: escapeAt_def split: list.splits if_splits)

lemma escapesAt_shorter: "escapesAt n s = Some (bs, r) \<Longrightarrow> length r \<le> length s"
proof (induction n arbitrary: s bs r)
  case 0
  then show ?case by simp
next
  case (Suc n)
  then show ?case
    by (fastforce split: option.splits prod.splits dest: escapeAt_shorter)
qed

lemma decodeEscape_shorter: "decodeEscape s = Some (u, r) \<Longrightarrow> length r < length s"
  by (fastforce simp: decodeEscape_def Let_def split: option.splits prod.splits if_splits
        dest: escapeAt_shorter escapesAt_shorter)

function decodeURIComponent :: "jsstring \<Rightarrow> js_error + jsstring" where
  "decodeURIComponent [] = Inr []"
| "decodeURIComponent (c # cs) =
     (if c \<noteq> 37
      then (case decodeURIComponent cs of Inl e \<Rightarrow> Inl e | Inr r \<Rightarrow> Inr (c # r))
      else (case decodeEscape (c # cs) of
              None \<Rightarrow> Inl URIError
            | Some (u, rest) \<Rightarrow>
                (case decodeURIComponent rest of Inl e \<Rightarrow> Inl e | Inr r \<Rightarrow> Inr (u @ r))))"
  by pat_completeness auto
termination
  by (relation "measure length") (auto dest: decodeEscape_shorter)

subsection \<open>\<open>toLowerCase\<close> and the regular expression\<close>

text \<open>
  \<open>toLowerCase\<close> maps every ASCII code unit by itself, \<open>A\<close> to \<open>Z\<close> to \<open>a\<close> to \<open>z\<close>. What a
  code unit outside ASCII becomes is the Unicode character database's: the function
  takes it as a parameter, which is given the whole string and the position (the
  mapping of a sigma depends on its context, and a surrogate pair maps as one).
\<close>

type_synonym case_table = "jsstring \<Rightarrow> nat \<Rightarrow> jsstring"

definition asciiLower :: "nat \<Rightarrow> nat" where
  "asciiLower c = (if 65 \<le> c \<and> c \<le> 90 then c + 32 else c)"

fun lowerFrom :: "case_table \<Rightarrow> jsstring \<Rightarrow> nat \<Rightarrow> jsstring \<Rightarrow> jsstring" where
  "lowerFrom U whole i [] = []"
| "lowerFrom U whole i (c # cs) =
     (if c < 128 then [asciiLower c] else U whole i) @ lowerFrom U whole (Suc i) cs"

definition toLowerCase :: "case_table \<Rightarrow> jsstring \<Rightarrow> jsstring" where
  "toLowerCase U s = lowerFrom U s 0 s"

text \<open>A table for running the functions: it leaves the code units outside ASCII as they are.\<close>

definition plainTable :: case_table where
  "plainTable whole i = [whole ! i]"

text \<open>
  \<open>href.match(/[?&]lang=([^&#]+)/i)\<close>: the leftmost position with \<open>?\<close> or \<open>&\<close>, then
  \<open>lang=\<close> in any case, then at least one character other than \<open>&\<close> and \<open>#\<close>. The result
  is the group \<open>m[1]\<close>, the longest such run, \<open>None\<close> for \<open>null\<close>.
\<close>

fun hrefMatch :: "jsstring \<Rightarrow> jsstring option" where
  "hrefMatch [] = None"
| "hrefMatch (c # cs) =
     (let m1 = takeWhile (\<lambda>x. x \<noteq> 38 \<and> x \<noteq> 35) (drop 5 cs)
      in if (c = 63 \<or> c = 38) \<and> map asciiLower (take 5 cs) = js ''lang='' \<and> m1 \<noteq> []
         then Some m1
         else hrefMatch cs)"

section \<open>ifet/lang.js\<close>

definition SUPPORTED_LOCALES :: "jsstring list" where
  "SUPPORTED_LOCALES =
     map js [''ar'', ''bn'', ''de'', ''en'', ''es'', ''fr'', ''hi'', ''ja'', ''ko'', ''pt'', ''ru'', ''zh'']"

definition DEFAULT_LOCALE :: jsstring where
  "DEFAULT_LOCALE = js ''en''"

text \<open>\<open>window.location\<close>, as far as \<open>detectLanguage\<close> reads it.\<close>

record location =
  search :: jsstring
  href :: jsstring

text \<open>\<open>s.split('-')[0]\<close>.\<close>

definition beforeHyphen :: "jsstring \<Rightarrow> jsstring" where
  "beforeHyphen s = (case splitOn 45 s of [] \<Rightarrow> [] | p # _ \<Rightarrow> p)"

text \<open>
  The \<open>try\<close> block of \<open>detectLanguage\<close>: \<open>Inl\<close> the error thrown in it, \<open>Inr (Some l)\<close> a
  \<open>return l\<close> in it, \<open>Inr None\<close> when it runs to its end.
\<close>

definition detectLanguageTry :: "case_table \<Rightarrow> location \<Rightarrow> js_error + jsstring option" where
  "detectLanguageTry U loc =
     (let urlParams = URLSearchParams (toStr (orElse (JStr (search loc)) (JStr [])));
          raw = trim (toStr (orElse (paramsGet urlParams (js ''lang'')) (JStr [])));
          normalized = beforeHyphen (toLowerCase U raw)
      in if List.member SUPPORTED_LOCALES normalized then Inr (Some normalized)
         else (let h = toStr (orElse (JStr (href loc)) (JStr []))
               in case hrefMatch h of
                    None \<Rightarrow> Inr None
                  | Some m1 \<Rightarrow>
                      (case decodeURIComponent m1 of
                         Inl e \<Rightarrow> Inl e
                       | Inr d \<Rightarrow>
                           (let fromHref = beforeHyphen (toLowerCase U (trim d))
                            in if List.member SUPPORTED_LOCALES fromHref then Inr (Some fromHref)
                               else Inr None))))"

text \<open>
  \<open>detectLanguage\<close> with its \<open>catch\<close>: the result is \<open>Inr\<close> the locale returned, and would
  be \<open>Inl\<close> an error that leaves the function.
\<close>

definition detectLanguage :: "case_table \<Rightarrow> location \<Rightarrow> js_error + jsstring" where
  "detectLanguage U loc =
     (case detectLanguageTry U loc of
        Inr (Some l) \<Rightarrow> Inr l
      | Inr None \<Rightarrow> Inr DEFAULT_LOCALE
      | Inl e \<Rightarrow> Inr DEFAULT_LOCALE)"

subsection \<open>The document\<close>

text \<open>
  A node of the document tree. An element has its \<open>tagName\<close>, its attributes in order,
  the current \<open>value\<close> of a form control (a property, not an attribute) and its child
  nodes. A document is its root element, \<open>document.documentElement\<close>.
\<close>

datatype node =
    Element jsstring "(jsstring \<times> jsstring) list" jsstring "node list"
  | TextNode jsstring
  | CommentNode jsstring

definition hasAttribute :: "(jsstring \<times> jsstring) list \<Rightarrow> jsstring \<Rightarrow> bool" where
  "hasAttribute attrs name \<longleftrightarrow> map_of attrs name \<noteq> None"

text \<open>\<open>getAttribute\<close> gives \<open>null\<close> for an attribute that is not there.\<close>

definition getAttribute :: "(jsstring \<times> jsstring) list \<Rightarrow> jsstring \<Rightarrow> jsval" where
  "getAttribute attrs name = (case map_of attrs name of None \<Rightarrow> JNull | Some v \<Rightarrow> JStr v)"

text \<open>Setting an attribute changes it in place, or appends it.\<close>

fun setAttribute :: "jsstring \<Rightarrow> jsstring \<Rightarrow> (jsstring \<times> jsstring) list \<Rightarrow> (jsstring \<times> jsstring) list" where
  "setAttribute name v [] = [(name, v)]"
| "setAttribute name v ((k, w) # rest) =
     (if k = name then (k, v) # rest else (k, w) # setAttribute name v rest)"

fun isElement :: "node \<Rightarrow> bool" where
  "isElement (Element tag attrs v kids) = True"
| "isElement (TextNode s) = False"
| "isElement (CommentNode s) = False"

fun isText :: "node \<Rightarrow> bool" where
  "isText (TextNode s) = True"
| "isText (Element tag attrs v kids) = False"
| "isText (CommentNode s) = False"

text \<open>\<open>element.children\<close>: the child nodes that are elements.\<close>

definition children :: "node list \<Rightarrow> node list" where
  "children kids = filter isElement kids"

text \<open>The child nodes after \<open>element.textContent = text\<close>: one text node, none for the empty string.\<close>

definition textContent :: "jsstring \<Rightarrow> node list" where
  "textContent text = (if text = [] then [] else [TextNode text])"

text \<open>
  The translations object: a table of key and string for each locale it has.
  \<open>lookupKey\<close> is \<open>translations[lang]?.[key]\<close> on own, string-valued properties,
  \<open>undefined\<close> being \<open>JNull\<close>; \<open>resolveText\<close> is the chain with \<open>||\<close> of lines 59 and 71.
\<close>

type_synonym translation_store = "jsstring \<rightharpoonup> (jsstring \<rightharpoonup> jsstring)"

definition lookupKey :: "translation_store \<Rightarrow> jsstring \<Rightarrow> jsstring \<Rightarrow> jsval" where
  "lookupKey tr lang key =
     (case tr lang of
        None \<Rightarrow> JNull
      | Some table \<Rightarrow> (case table key of None \<Rightarrow> JNull | Some v \<Rightarrow> JStr v))"

definition resolveText :: "translation_store \<Rightarrow> jsstring \<Rightarrow> jsval \<Rightarrow> jsstring" where
  "resolveText tr lang key =
     toStr (orElse (orElse (lookupKey tr lang (toStr key)) (lookupKey tr (js ''en'') (toStr key))) key)"

text \<open>
  The callback of \<open>forEach\<close> and the traversal. \<open>querySelectorAll\<close> lists the marked
  elements in document order, an element before its descendants, and the list is not
  live. The callback changes an attribute or the value of its element, or replaces its
  child nodes by a text; in the second case the marked elements below it are no longer
  in the document when their turn comes, and what the callback does to them does not
  reach the document. So the document after the loop is the tree rebuilt from the root:
  an element whose child nodes are kept has them translated in turn.
\<close>

fun translateNode :: "translation_store \<Rightarrow> jsstring \<Rightarrow> node \<Rightarrow> node" where
  "translateNode tr lang (TextNode s) = TextNode s"
| "translateNode tr lang (CommentNode s) = CommentNode s"
| "translateNode tr lang (Element tag attrs v kids) =
     (if \<not> hasAttribute attrs (js ''data-i18n'')
      then Element tag attrs v (map (translateNode tr lang) kids)
      else
        (let key = getAttribute attrs (js ''data-i18n'');
             text = resolveText tr lang key
         in if tag = js ''INPUT'' \<or> tag = js ''TEXTAREA''
            then (if hasAttribute attrs (js ''placeholder'')
                  then Element tag (setAttribute (js ''placeholder'') text attrs) v
                         (map (translateNode tr lang) kids)
                  else Element tag attrs text (map (translateNode tr lang) kids))
            else if hasAttribute attrs (js ''data-i18n-link'')
            then (let linkKey = getAttribute attrs (js ''data-i18n-link'');
                      linkText = resolveText tr lang linkKey
                  in Element tag attrs v (textContent linkText))
            else if length (children kids) = 0
            then Element tag attrs v (textContent text)
            else (case kids of
                    firstChild # _ \<Rightarrow>
                      if isText firstChild \<and> length (children kids) = 0
                      then Element tag attrs v (textContent text)
                      else Element tag attrs v (map (translateNode tr lang) kids)
                  | [] \<Rightarrow> Element tag attrs v (map (translateNode tr lang) kids))))"

text \<open>
  The markup of the placeholder, as the parser builds it from the template literal of
  lines 45 to 52 inside a \<open>body\<close> element.
\<close>

definition indent :: "nat \<Rightarrow> node" where
  "indent n = TextNode (10 # replicate n 32)"

definition comingSoon :: "node list" where
  "comingSoon =
     [indent 6,
      Element (js ''DIV'') [(js ''class'', js ''container'')] []
        [indent 8,
         Element (js ''DIV'') [(js ''class'', js ''panel'')] []
           [indent 10,
            Element (js ''H1'') [(js ''class'', js ''page-title'')] []
              [TextNode (js ''Coming Soon'')],
            indent 10,
            Element (js ''P'') [(js ''class'', js ''page-subtitle'')] []
              [TextNode (js ''This page is not yet available in your language.'')],
            indent 8],
         indent 6],
      indent 4]"

text \<open>
  \<open>document.body\<close> is the first \<open>body\<close> child of an \<open>html\<close> root, \<open>null\<close> when there is
  none. \<open>setBodyInnerHTML\<close> replaces the child nodes of that element in the child nodes
  of the root, and is \<open>None\<close> when there is no body (documents with a \<open>frameset\<close> in
  its place are not modelled).
\<close>

fun isBody :: "node \<Rightarrow> bool" where
  "isBody (Element tag attrs v kids) = (tag = js ''BODY'')"
| "isBody (TextNode s) = False"
| "isBody (CommentNode s) = False"

fun setInnerHTML :: "node list \<Rightarrow> node \<Rightarrow> node" where
  "setInnerHTML new (Element tag attrs v kids) = Element tag attrs v new"
| "setInnerHTML new (TextNode s) = TextNode s"
| "setInnerHTML new (CommentNode s) = CommentNode s"

fun setBodyInnerHTML :: "node list \<Rightarrow> node list \<Rightarrow> node list option" where
  "setBodyInnerHTML new [] = None"
| "setBodyInnerHTML new (n # ns) =
     (if isBody n then Some (setInnerHTML new n # ns)
      else (case setBodyInnerHTML new ns of None \<Rightarrow> None | Some ns' \<Rightarrow> Some (n # ns')))"

definition TypeError :: js_error where
  "TypeError = JsError (js ''TypeError'') (js ''Cannot set properties of null'')"

text \<open>
  \<open>translatePage\<close>, for the value of \<open>currentLang\<close> and of \<open>translations\<close>: the document it
  leaves, or the error it throws (it has no \<open>try\<close>). Both assignments that can throw,
  to \<open>document.body.innerHTML\<close> and to \<open>document.documentElement.lang\<close>, throw before
  anything in the document has changed: the first is the first statement of its path,
  and the second has a null root only in a document without elements, where the loop
  had nothing to visit.
\<close>

definition translatePage :: "translation_store \<Rightarrow> jsstring \<Rightarrow> node \<Rightarrow> js_error + node" where
  "translatePage tr lang doc =
     (if tr lang = None \<and> lang \<noteq> js ''en'' \<and> lang \<noteq> js ''ru''
      then (case doc of
              Element tag attrs v kids \<Rightarrow>
                if tag = js ''HTML''
                then (case setBodyInnerHTML comingSoon kids of
                        None \<Rightarrow> Inl TypeError
                      | Some kids' \<Rightarrow> Inr (Element tag attrs v kids'))
                else Inl TypeError
            | _ \<Rightarrow> Inl TypeError)
      else (case translateNode tr lang doc of
              Element tag attrs v kids \<Rightarrow> Inr (Element tag (setAttribute (js ''lang'') lang attrs) v kids)
            | _ \<Rightarrow> Inl TypeError))"

text \<open>
  \<open>initTranslations\<close> stores the page's translations in the global and runs
  \<open>translatePage\<close> on them: the new value of the global, and the outcome of the call.
\<close>

definition initTranslations ::
  "translation_store \<Rightarrow> jsstring \<Rightarrow> node \<Rightarrow> translation_store \<times> (js_error + node)" where
  "initTranslations pageTranslations lang doc =
     (pageTranslations, translatePage pageTranslations lang doc)"

text \<open>The child nodes of a node, none for a text or a comment.\<close>

fun childNodes :: "node \<Rightarrow> node list" where
  "childNodes (Element tag attrs v kids) = kids"
| "childNodes (TextNode s) = []"
| "childNodes (CommentNode s) = []"

section \<open>Notions used in the statements\<close>














text \<open>An element marked with \<open>data-i18n\<close> occurs in the subtree of a node.\<close>

fun hasMarked :: "node \<Rightarrow> bool" where
  "hasMarked (Element tag attrs v kids) =
     (hasAttribute attrs (js ''data-i18n'') \<or> list_ex hasMarked kids)"
| "hasMarked (TextNode s) = False"
| "hasMarked (CommentNode s) = False"

text \<open>
  The two candidates of \<open>detectLanguage\<close>: the normalized value of the query parameter
  (lines 9 to 11), and the normalized value matched in \<open>href\<close> (lines 15 to 18), \<open>None\<close>
  when nothing matches or the match cannot be decoded.
\<close>

definition langFromQuery :: "case_table \<Rightarrow> location \<Rightarrow> jsstring" where
  "langFromQuery U loc =
     beforeHyphen (toLowerCase U (trim (toStr
       (orElse (paramsGet (URLSearchParams (search loc)) (js ''lang'')) (JStr [])))))"

definition langFromHref :: "case_table \<Rightarrow> location \<Rightarrow> jsstring option" where
  "langFromHref U loc =
     (case hrefMatch (href loc) of
        None \<Rightarrow> None
      | Some m1 \<Rightarrow>
          (case decodeURIComponent m1 of
             Inl e \<Rightarrow> None
           | Inr d \<Rightarrow> Some (beforeHyphen (toLowerCase U (trim d)))))"

text \<open>
  Examples to run the functions on: a page address with a query and a fragment, a
  store with an empty Russian title, and a document with a heading, an input and a
  footer whose link carries a link key and nested markup, with the same document after
  \<open>translatePage\<close> for \<open>ru\<close> and for \<open>fr\<close>.
\<close>

definition pageUrl :: "string \<Rightarrow> string \<Rightarrow> location" where
  "pageUrl query fragment =
     \<lparr> search = js query, href = js ''https://example.com/page.html'' @ js query @ js fragment \<rparr>"

definition exampleStore :: translation_store where
  "exampleStore =
     [js ''en'' \<mapsto> [js ''title'' \<mapsto> js ''Hello''],
      js ''ru'' \<mapsto> [js ''title'' \<mapsto> [], js ''more'' \<mapsto> js ''Dalee'']]"

definition exampleLink :: node where
  "exampleLink =
     Element (js ''A'') [(js ''data-i18n'', js ''footer''), (js ''data-i18n-link'', js ''more'')] []
       [Element (js ''B'') [] [] [TextNode (js ''more'')]]"

definition exampleFooter :: node where
  "exampleFooter =
     Element (js ''P'') [(js ''data-i18n'', js ''footer'')] [] [TextNode (js ''See ''), exampleLink]"

definition exampleBody :: "node list" where
  "exampleBody =
     [Element (js ''H1'') [(js ''data-i18n'', js ''title'')] [] [TextNode (js ''Old'')],
      Element (js ''INPUT'') [(js ''data-i18n'', js ''hint''), (js ''placeholder'', [])] [] [],
      exampleFooter]"

definition exampleDocument :: node where
  "exampleDocument =
     Element (js ''HTML'') [(js ''lang'', js ''en'')] []
       [Element (js ''HEAD'') [] [] [], Element (js ''BODY'') [] [] exampleBody]"

definition exampleDocumentRu :: node where
  "exampleDocumentRu =
     Element (js ''HTML'') [(js ''lang'', js ''ru'')] []
       [Element (js ''HEAD'') [] [] [],
        Element (js ''BODY'') [] []
          [Element (js ''H1'') [(js ''data-i18n'', js ''title'')] [] [TextNode (js ''Hello'')],
           Element (js ''INPUT'') [(js ''data-i18n'', js ''hint''), (js ''placeholder'', js ''hint'')] [] [],
           Element (js ''P'') [(js ''data-i18n'', js ''footer'')] []
             [TextNode (js ''See ''),
              Element (js ''A'') [(js ''data-i18n'', js ''footer''), (js ''data-i18n-link'', js ''more'')] []
                [TextNode (js ''Dalee'')]]]]"

definition exampleDocumentSoon :: node where
  "exampleDocumentSoon =
     Element (js ''HTML'') [(js ''lang'', js ''en'')] []
       [Element (js ''HEAD'') [] [] [], Element (js ''BODY'') [] [] comingSoon]"

section \<open>Properties of api/ifet/feedback.js\<close>



lemma origin_header_value:
  "toStr (orElse (optVal (originHeader req)) (JStr []))
     = (case originHeader req of None \<Rightarrow> [] | Some s \<Rightarrow> s)"
  by (simp add: orElse_def optVal_def split: option.splits)

lemma handler_headers:
  "headers (fst (handler e world req))
     = corsHeaders (case originHeader req of None \<Rightarrow> [] | Some s \<Rightarrow> s) (getAllowedOrigins e)"
  unfolding handler_def Let_def origin_header_value
  by (simp add: json_def split: prod.splits sum.splits)

text \<open>
  C10. The \<open>Access-Control-Allow-Origin\<close> header that \<open>corsHeaders\<close> computes is \<open>*\<close> or a
  member of the allow-list, for every request origin and every allow-list. An origin
  that is not in a non-empty allow-list without \<open>*\<close> is not echoed: the header is the
  first origin of the list. Every response of the handler carries the header computed
  from the request's \<open>Origin\<close> and the allow-list configured in the environment.
\<close>

theorem corsHeaders_allow_origin:
  "(accessControlAllowOrigin (corsHeaders origin allowed) = js ''*''
      \<or> accessControlAllowOrigin (corsHeaders origin allowed) \<in> set allowed)
   \<and> (allowed \<noteq> [] \<and> \<not> List.member allowed (js ''*'') \<and> \<not> List.member allowed origin \<longrightarrow>
        accessControlAllowOrigin (corsHeaders origin allowed) = hd allowed
        \<and> accessControlAllowOrigin (corsHeaders origin allowed) \<noteq> origin)
   \<and> accessControlAllowOrigin (headers (fst (handler e world req)))
        = accessControlAllowOrigin
            (corsHeaders (case originHeader req of None \<Rightarrow> [] | Some s \<Rightarrow> s) (getAllowedOrigins e))"
proof -
  have a: "accessControlAllowOrigin (corsHeaders origin allowed) = js ''*''
      \<or> accessControlAllowOrigin (corsHeaders origin allowed) \<in> set allowed"
    by (cases allowed) (auto simp: corsHeaders_def)
  have b: "allowed \<noteq> [] \<and> \<not> List.member allowed (js ''*'') \<and> \<not> List.member allowed origin \<longrightarrow>
        accessControlAllowOrigin (corsHeaders origin allowed) = hd allowed
        \<and> accessControlAllowOrigin (corsHeaders origin allowed) \<noteq> origin"
    by (cases allowed) (auto simp: corsHeaders_def)
  have c: "accessControlAllowOrigin (headers (fst (handler e world req)))
        = accessControlAllowOrigin
            (corsHeaders (case originHeader req of None \<Rightarrow> [] | Some s \<Rightarrow> s) (getAllowedOrigins e))"
    by (simp add: handler_headers)
  show ?thesis by (rule conjI[OF a conjI[OF b c]])
qed

theorem corsHeaders_allow_origin_witness:
  "[js ''https://a.example'', js ''https://b.example''] \<noteq> []
   \<and> \<not> List.member [js ''https://a.example'', js ''https://b.example''] (js ''*'')
   \<and> \<not> List.member [js ''https://a.example'', js ''https://b.example''] (js ''https://evil.example'')
   \<and> accessControlAllowOrigin
         (corsHeaders (js ''https://evil.example'') [js ''https://a.example'', js ''https://b.example''])
       = js ''https://a.example''"
  using corsHeaders_allow_origin [of "js ''https://evil.example''"
          "[js ''https://a.example'', js ''https://b.example'']"]
  by (simp add: js_def)
















section \<open>Properties of ifet/lang.js\<close>

subsection \<open>Evaluation\<close>

lemmas lang_eval =
  js_def URLSearchParams_def utf8Encode_def
  scalar_def isHigh_def isLow_def utf8Bytes_def parseUrlencoded_def formDecode_def
  utf8DecodeLossy_def utf8Lead_def toUnits_def paramsGet_def orElse_def trim_def trimStart_def
  trimEnd_def isWhiteSpace_def toLowerCase_def asciiLower_def plainTable_def beforeHyphen_def
  isHex_def hexVal_def escapeAt_def decodeEscape_def leadingOnes_def decodeOctets_def
  URIError_def detectLanguage_def detectLanguageTry_def Let_def SUPPORTED_LOCALES_def
  DEFAULT_LOCALE_def

lemma run_unknown:
  "langFromQuery plainTable (pageUrl ''?lang=xx'' []) = js ''xx''
   \<and> langFromHref plainTable (pageUrl ''?lang=xx'' []) = Some (js ''xx'')"
  by (simp add: langFromQuery_def langFromHref_def pageUrl_def lang_eval)

lemma run_absent:
  "paramsGet (URLSearchParams (search (pageUrl [] []))) (js ''lang'') = JNull
   \<and> hrefMatch (href (pageUrl [] [])) = None"
  by (simp add: pageUrl_def lang_eval)

lemma run_throw:
  "langFromQuery plainTable (pageUrl ''?lang=%'' []) = js ''%''
   \<and> hrefMatch (href (pageUrl ''?lang=%'' [])) = Some (js ''%'')
   \<and> decodeURIComponent (js ''%'') = Inl URIError"
  by (simp add: langFromQuery_def pageUrl_def lang_eval)

lemma run_garbage:
  "langFromQuery plainTable (pageUrl ''?lang=%D1%80%D1%83'' []) = [1088, 1091]
   \<and> langFromHref plainTable (pageUrl ''?lang=%D1%80%D1%83'' []) = Some [1088, 1091]"
  by (simp add: langFromQuery_def langFromHref_def pageUrl_def lang_eval)

lemma run_fragment:
  "paramsGet (URLSearchParams (search (pageUrl [] ''#?lang=ru''))) (js ''lang'') = JNull
   \<and> detectLanguage plainTable (pageUrl [] ''#?lang=ru'') = Inr (js ''ru'')"
  by (simp add: pageUrl_def lang_eval)


lemmas example_defs =
  exampleStore_def exampleLink_def exampleFooter_def exampleBody_def exampleDocument_def
  exampleDocumentRu_def exampleDocumentSoon_def



subsection \<open>\<open>detectLanguage\<close>\<close>






lemma utf8Decode_ascii:
  "c < 128 \<Longrightarrow> utf8Decode 0 0 128 191 (c # bs) = c # utf8Decode 0 0 128 191 bs"
  by (simp add: utf8Lead_def)











lemma search_value: "toStr (orElse (JStr s) (JStr [])) = s"
  by (simp add: orElse_def)





lemma toLowerCase_Nil: "toLowerCase U [] = []"
  by (simp add: toLowerCase_def)

lemma beforeHyphen_Nil: "beforeHyphen [] = []"
  by (simp add: beforeHyphen_def)

lemma trim_Nil: "trim [] = []"
  by (simp add: trim_def trimStart_def trimEnd_def)

lemma empty_unsupported: "\<not> List.member SUPPORTED_LOCALES []"
  by (simp add: SUPPORTED_LOCALES_def js_def)

lemma default_supported: "List.member SUPPORTED_LOCALES DEFAULT_LOCALE"
  by (simp add: SUPPORTED_LOCALES_def DEFAULT_LOCALE_def js_def)

lemma detectLanguage_cases:
  "detectLanguage U loc =
     (if List.member SUPPORTED_LOCALES (langFromQuery U loc) then Inr (langFromQuery U loc)
      else (case langFromHref U loc of
              None \<Rightarrow> Inr DEFAULT_LOCALE
            | Some l \<Rightarrow> if List.member SUPPORTED_LOCALES l then Inr l else Inr DEFAULT_LOCALE))"
  unfolding detectLanguage_def detectLanguageTry_def langFromQuery_def langFromHref_def Let_def
    search_value
  by (simp split: option.splits sum.splits)

text \<open>
  C4, as the code has it. \<open>detectLanguage\<close> never throws and always returns a supported
  locale. It returns the default locale whenever neither candidate is a supported
  code: the normalized \<open>lang\<close> query parameter, and the normalized value of the first
  \<open>lang=\<close> that the pattern finds in the full URL, fragment included. In particular it
  does when the parameter is absent and the pattern finds nothing, and when decoding
  the matched value throws.
\<close>

theorem detectLanguage_default:
  "(\<exists>l. detectLanguage U loc = Inr l \<and> List.member SUPPORTED_LOCALES l)
   \<and> (\<not> List.member SUPPORTED_LOCALES (langFromQuery U loc)
        \<and> (\<forall>l. langFromHref U loc = Some l \<longrightarrow> \<not> List.member SUPPORTED_LOCALES l) \<longrightarrow>
      detectLanguage U loc = Inr DEFAULT_LOCALE)
   \<and> (paramsGet (URLSearchParams (search loc)) (js ''lang'') = JNull \<and> hrefMatch (href loc) = None \<longrightarrow>
      detectLanguage U loc = Inr DEFAULT_LOCALE)
   \<and> (\<not> List.member SUPPORTED_LOCALES (langFromQuery U loc)
        \<and> hrefMatch (href loc) = Some m \<and> decodeURIComponent m = Inl e \<longrightarrow>
      detectLanguage U loc = Inr DEFAULT_LOCALE)"
proof -
  have a: "\<exists>l. detectLanguage U loc = Inr l \<and> List.member SUPPORTED_LOCALES l"
    using default_supported by (auto simp: detectLanguage_cases split: option.splits)
  have b: "\<not> List.member SUPPORTED_LOCALES (langFromQuery U loc)
        \<and> (\<forall>l. langFromHref U loc = Some l \<longrightarrow> \<not> List.member SUPPORTED_LOCALES l) \<longrightarrow>
      detectLanguage U loc = Inr DEFAULT_LOCALE"
    by (auto simp: detectLanguage_cases split: option.splits)
  have c: "paramsGet (URLSearchParams (search loc)) (js ''lang'') = JNull \<and> hrefMatch (href loc) = None \<longrightarrow>
      detectLanguage U loc = Inr DEFAULT_LOCALE"
    using empty_unsupported
    by (simp add: detectLanguage_cases langFromQuery_def langFromHref_def orElse_def trim_Nil
          toLowerCase_Nil beforeHyphen_Nil)
  have d: "\<not> List.member SUPPORTED_LOCALES (langFromQuery U loc)
        \<and> hrefMatch (href loc) = Some m \<and> decodeURIComponent m = Inl e \<longrightarrow>
      detectLanguage U loc = Inr DEFAULT_LOCALE"
    by (simp add: detectLanguage_cases langFromHref_def)
  show ?thesis by (rule conjI[OF a conjI[OF b conjI[OF c d]]])
qed

theorem detectLanguage_default_witness:
  "\<not> List.member SUPPORTED_LOCALES (langFromQuery plainTable (pageUrl ''?lang=xx'' []))
   \<and> detectLanguage plainTable (pageUrl ''?lang=xx'' []) = Inr (js ''en'')
   \<and> paramsGet (URLSearchParams (search (pageUrl [] []))) (js ''lang'') = JNull
   \<and> hrefMatch (href (pageUrl [] [])) = None
   \<and> detectLanguage plainTable (pageUrl [] []) = Inr (js ''en'')
   \<and> hrefMatch (href (pageUrl ''?lang=%'' [])) = Some (js ''%'')
   \<and> decodeURIComponent (js ''%'') = Inl URIError
   \<and> detectLanguage plainTable (pageUrl ''?lang=%'' []) = Inr (js ''en'')
   \<and> langFromQuery plainTable (pageUrl ''?lang=%D1%80%D1%83'' []) = [1088, 1091]
   \<and> detectLanguage plainTable (pageUrl ''?lang=%D1%80%D1%83'' []) = Inr (js ''en'')"
  using detectLanguage_default [of plainTable "pageUrl ''?lang=xx'' []"]
        detectLanguage_default [of plainTable "pageUrl [] []"]
        detectLanguage_default [of plainTable "pageUrl ''?lang=%'' []" "js ''%''" URIError]
        detectLanguage_default [of plainTable "pageUrl ''?lang=%D1%80%D1%83'' []"]
        run_unknown run_absent run_throw run_garbage
  by (simp add: SUPPORTED_LOCALES_def DEFAULT_LOCALE_def js_def)

text \<open>
  C4 as stated fails: the address \<open>https://example.com/page.html#?lang=ru\<close> has no query
  string, so its \<open>lang\<close> parameter is absent, and \<open>detectLanguage\<close> returns \<open>ru\<close>, which the
  pattern finds in the fragment.
\<close>

theorem detectLanguage_default_counterexample:
  "search (pageUrl [] ''#?lang=ru'') = []
   \<and> paramsGet (URLSearchParams (search (pageUrl [] ''#?lang=ru''))) (js ''lang'') = JNull
   \<and> detectLanguage plainTable (pageUrl [] ''#?lang=ru'') = Inr (js ''ru'')
   \<and> detectLanguage plainTable (pageUrl [] ''#?lang=ru'') \<noteq> Inr DEFAULT_LOCALE"
  using run_fragment by (simp add: pageUrl_def DEFAULT_LOCALE_def js_def)

subsection \<open>\<open>translatePage\<close>\<close>






lemma translateNode_Element:
  "translateNode tr lang (Element tag attrs v kids) =
     (if \<not> hasAttribute attrs (js ''data-i18n'')
      then Element tag attrs v (map (translateNode tr lang) kids)
      else if tag = js ''INPUT'' \<or> tag = js ''TEXTAREA''
      then (if hasAttribute attrs (js ''placeholder'')
            then Element tag
                   (setAttribute (js ''placeholder'')
                      (resolveText tr lang (getAttribute attrs (js ''data-i18n''))) attrs) v
                   (map (translateNode tr lang) kids)
            else Element tag attrs (resolveText tr lang (getAttribute attrs (js ''data-i18n'')))
                   (map (translateNode tr lang) kids))
      else if hasAttribute attrs (js ''data-i18n-link'')
      then Element tag attrs v
             (textContent (resolveText tr lang (getAttribute attrs (js ''data-i18n-link''))))
      else if children kids = []
      then Element tag attrs v
             (textContent (resolveText tr lang (getAttribute attrs (js ''data-i18n''))))
      else Element tag attrs v (map (translateNode tr lang) kids))"
  by (simp add: Let_def split: list.splits)





lemma translateNode_unmarked: "\<not> hasMarked n \<Longrightarrow> translateNode tr lang n = n"
proof (induction n)
  case (Element tag attrs v kids)
  then have "map (translateNode tr lang) kids = kids"
    by (simp add: list_ex_iff map_idI)
  with Element.prems show ?case by (simp add: translateNode_Element del: translateNode.simps(3))
qed simp_all













text \<open>
  C6, as the code has it. A marked element that is no \<open>INPUT\<close> or \<open>TEXTAREA\<close>, has no
  \<open>data-i18n-link\<close> attribute and has at least one element child is not overwritten: its
  tag, attributes, value and child nodes stay in place, and each child node changes
  only by the substitution of the marked elements in it. When nothing below the
  element is marked, the element is unchanged.
\<close>

theorem translateNode_keeps_markup:
  assumes "hasAttribute attrs (js ''data-i18n'')"
    and "tag \<noteq> js ''INPUT''" and "tag \<noteq> js ''TEXTAREA''"
    and "\<not> hasAttribute attrs (js ''data-i18n-link'')"
    and "children kids \<noteq> []"
  shows "translateNode tr lang (Element tag attrs v kids)
           = Element tag attrs v (map (translateNode tr lang) kids)
         \<and> (\<not> list_ex hasMarked kids \<longrightarrow>
              translateNode tr lang (Element tag attrs v kids) = Element tag attrs v kids)"
proof -
  have a: "translateNode tr lang (Element tag attrs v kids)
           = Element tag attrs v (map (translateNode tr lang) kids)"
    using assms by (simp add: translateNode_Element del: translateNode.simps(3))
  have b: "\<not> list_ex hasMarked kids \<longrightarrow>
              translateNode tr lang (Element tag attrs v kids) = Element tag attrs v kids"
  proof
    assume "\<not> list_ex hasMarked kids"
    then have "map (translateNode tr lang) kids = kids"
      by (simp add: list_ex_iff map_idI translateNode_unmarked)
    with a show "translateNode tr lang (Element tag attrs v kids) = Element tag attrs v kids"
      by simp
  qed
  show ?thesis by (rule conjI[OF a b])
qed

theorem translateNode_keeps_markup_witness:
  "hasAttribute [(js ''data-i18n'', js ''footer'')] (js ''data-i18n'')
   \<and> js ''P'' \<noteq> js ''INPUT'' \<and> js ''P'' \<noteq> js ''TEXTAREA''
   \<and> \<not> hasAttribute [(js ''data-i18n'', js ''footer'')] (js ''data-i18n-link'')
   \<and> children [TextNode (js ''See ''), Element (js ''B'') [] [] [TextNode (js ''more'')]] \<noteq> []
   \<and> \<not> list_ex hasMarked [TextNode (js ''See ''), Element (js ''B'') [] [] [TextNode (js ''more'')]]
   \<and> translateNode exampleStore (js ''ru'')
        (Element (js ''P'') [(js ''data-i18n'', js ''footer'')] []
           [TextNode (js ''See ''), Element (js ''B'') [] [] [TextNode (js ''more'')]])
      = Element (js ''P'') [(js ''data-i18n'', js ''footer'')] []
           [TextNode (js ''See ''), Element (js ''B'') [] [] [TextNode (js ''more'')]]"
  using translateNode_keeps_markup [of "[(js ''data-i18n'', js ''footer'')]" "js ''P''"
          "[TextNode (js ''See ''), Element (js ''B'') [] [] [TextNode (js ''more'')]]"
          exampleStore "js ''ru''" "[]"]
  by (simp add: hasAttribute_def children_def js_def)

text \<open>
  C6 as stated fails: the link of the example is marked, is no input and has an element
  child, and its content is replaced by the text of its link key; the footer around it
  keeps its child nodes, but the link in them has changed.
\<close>

theorem translateNode_keeps_markup_counterexample:
  "hasAttribute [(js ''data-i18n'', js ''footer''), (js ''data-i18n-link'', js ''more'')] (js ''data-i18n'')
   \<and> js ''A'' \<noteq> js ''INPUT'' \<and> js ''A'' \<noteq> js ''TEXTAREA''
   \<and> children [Element (js ''B'') [] [] [TextNode (js ''more'')]] \<noteq> []
   \<and> childNodes (translateNode exampleStore (js ''ru'') exampleLink) = [TextNode (js ''Dalee'')]
   \<and> childNodes (translateNode exampleStore (js ''ru'') exampleLink) \<noteq> childNodes exampleLink
   \<and> childNodes (translateNode exampleStore (js ''ru'') exampleFooter) \<noteq> childNodes exampleFooter"
  by (simp add: example_defs hasAttribute_def getAttribute_def resolveText_def
        lookupKey_def orElse_def textContent_def children_def js_def)





end
